theory Spec2Isabelle
  imports Main "HOL-Library.Sublist"
begin

section \<open>Python strings\<close>

text \<open>
  A Python \<open>str\<close> is modelled as a \<open>string\<close>, one \<open>char\<close> per code point (code points
  below 256). The helpers below are the \<open>str\<close> methods that \<open>memory.py\<close> calls.
\<close>

definition truthy :: "string option \<Rightarrow> bool" where
  \<comment> \<open>\<open>if x:\<close> for an \<open>Optional[str]\<close>: \<open>None\<close> and the empty string are false.\<close>
  "truthy x = (case x of None \<Rightarrow> False | Some s \<Rightarrow> s \<noteq> [])"

definition startswith :: "string \<Rightarrow> string \<Rightarrow> bool" where
  "startswith s p = (take (length p) s = p)"

definition endswith :: "string \<Rightarrow> string \<Rightarrow> bool" where
  "endswith s p = (length p \<le> length s \<and> drop (length s - length p) s = p)"

fun contains :: "string \<Rightarrow> string \<Rightarrow> bool" where
  \<comment> \<open>\<open>sub in s\<close>\<close>
  "contains [] sub = (sub = [])"
| "contains (c # cs) sub = (startswith (c # cs) sub \<or> contains cs sub)"

definition isspace :: "char \<Rightarrow> bool" where
  \<comment> \<open>the code points below 256 for which \<open>str.isspace\<close> holds\<close>
  "isspace c = (let n = of_char c :: nat in
     (9 \<le> n \<and> n \<le> 13) \<or> (28 \<le> n \<and> n \<le> 32) \<or> n = 133 \<or> n = 160)"

definition strip :: "string \<Rightarrow> string" where
  "strip s = rev (dropWhile isspace (rev (dropWhile isspace s)))"

definition lower_char :: "char \<Rightarrow> char" where
  "lower_char c = (let n = of_char c :: nat in
     if 65 \<le> n \<and> n \<le> 90 then char_of (n + 32) else c)"

definition lower :: "string \<Rightarrow> string" where
  \<comment> \<open>\<open>str.lower\<close> on the ASCII letters, which are all that the one use of it looks for\<close>
  "lower s = map lower_char s"

definition isdigit_char :: "char \<Rightarrow> bool" where
  "isdigit_char c = (let n = of_char c :: nat in 48 \<le> n \<and> n \<le> 57)"

definition isdigit :: "string \<Rightarrow> bool" where
  \<comment> \<open>\<open>str.isdigit\<close>: non-empty and decimal digits only (git prints \<open>%ct\<close> in ASCII)\<close>
  "isdigit s = (s \<noteq> [] \<and> list_all isdigit_char s)"

definition int_of_str :: "string \<Rightarrow> int" where
  \<comment> \<open>\<open>int(s)\<close> for a string of decimal digits\<close>
  "int_of_str s = foldl (\<lambda>a c. 10 * a + (int (of_char c) - 48)) 0 s"

fun split :: "char \<Rightarrow> string \<Rightarrow> string list" where
  \<comment> \<open>\<open>s.split(d)\<close> for a one-character separator\<close>
  "split d [] = [[]]"
| "split d (c # cs) =
     (if c = d then [] # split d cs
      else (case split d cs of [] \<Rightarrow> [[c]] | x # xs \<Rightarrow> (c # x) # xs))"

fun join :: "string \<Rightarrow> string list \<Rightarrow> string" where
  \<comment> \<open>\<open>sep.join(xs)\<close>\<close>
  "join sep [] = []"
| "join sep [x] = x"
| "join sep (x # y # ys) = x @ sep @ join sep (y # ys)"

definition digit_char :: "nat \<Rightarrow> char" where
  "digit_char d = char_of (48 + d)"

function str_of_nat :: "nat \<Rightarrow> string" where
  "str_of_nat n = (if n < 10 then [digit_char n] else str_of_nat (n div 10) @ [digit_char (n mod 10)])"
  by pat_completeness auto
termination
  by (relation "measure id") auto

definition str_of_int :: "int \<Rightarrow> string" where
  \<comment> \<open>\<open>str(i)\<close>, as an f-string formats an \<open>int\<close>\<close>
  "str_of_int i = (if i < 0 then CHR ''-'' # str_of_nat (nat (- i)) else str_of_nat (nat i))"

section \<open>The world outside the program\<close>

text \<open>
  \<open>memory.py\<close> reads the file system through \<open>pathlib\<close>, runs \<open>git\<close> through
  \<open>subprocess\<close> and matches text with \<open>re\<close>. What these library calls return is a
  parameter of the model: an environment \<open>env\<close> of functions, one per call. A call
  answers with the exception it raises (\<open>Inl\<close>) or with its value (\<open>Inr\<close>). The
  exceptions are those that the handlers of \<open>memory.py\<close> name; an exception that no
  handler names (a \<open>ValueError\<close> of \<open>subprocess.run\<close> for a path with a null byte, say)
  would end the program, and the environment raises none. The three regular
  expressions are matched by \<open>re\<close>; what the program does with the matches is modelled.
\<close>

datatype os_error =
    FileNotFoundError string
  | PermissionError string
  | OSError string
  \<comment> \<open>the \<open>OSError\<close> family as the handlers tell it apart; the string is \<open>str(e)\<close>\<close>

datatype read_error = ReadOS os_error | UnicodeDecodeError

record completed_process =
  returncode :: int
  stdout :: string
  stderr :: string

text \<open>
  A \<open>PurePosixPath\<close>: the anchor (\<open>''''\<close>, \<open>''/''\<close> or \<open>''//''\<close>) and the names below it.
\<close>

record pure_path =
  anchor :: string
  names :: "string list"

record env =
  subprocess_run :: "string list \<Rightarrow> string \<Rightarrow> os_error + completed_process"
    \<comment> \<open>\<open>subprocess.run(argv, capture_output=True, text=True, cwd=cwd)\<close>\<close>
  read_text :: "string \<Rightarrow> read_error + string"
    \<comment> \<open>\<open>Path(p).read_text(encoding='utf-8')\<close>\<close>
  re_depends_section :: "string \<Rightarrow> string option"
    \<comment> \<open>group 1 of the \<open>re.search\<close> for the Depends section, \<open>None\<close> without a match\<close>
  re_bullets :: "string \<Rightarrow> string list"
    \<comment> \<open>group 1 of every match of the bullet pattern, in order\<close>
  re_inline :: "string \<Rightarrow> string list"
    \<comment> \<open>group 1 of every match of the inline reference pattern, in order\<close>
  re_at_depends :: "string \<Rightarrow> string option"
    \<comment> \<open>group 1 of the \<open>re.search\<close> for the \<open>@depends\<close> tag, \<open>None\<close> without a match\<close>
  fs_resolve :: "pure_path \<Rightarrow> string + pure_path"
    \<comment> \<open>\<open>p.resolve()\<close>; \<open>Inl\<close> is \<open>str(e)\<close> of the \<open>OSError\<close> or \<open>ValueError\<close> raised\<close>
  fs_exists :: "pure_path \<Rightarrow> string + bool"
    \<comment> \<open>\<open>p.exists()\<close>, likewise\<close>
  fs_is_dir :: "pure_path \<Rightarrow> os_error + bool"
  fs_listdir :: "pure_path \<Rightarrow> os_error + string list"
    \<comment> \<open>the entry names that \<open>p.iterdir()\<close> walks through\<close>
  fs_is_file :: "pure_path \<Rightarrow> os_error + bool"

section \<open>Pure paths\<close>

definition Path :: "string \<Rightarrow> pure_path" where
  \<comment> \<open>parsing a string: one leading slash or three and more give the root \<open>/\<close>, exactly
      two give \<open>//\<close>; empty names and \<open>.\<close> are dropped\<close>
  "Path s =
     \<lparr> anchor = (if startswith s ''/'' then
                   (if startswith s ''//'' \<and> \<not> startswith s ''///'' then ''//'' else ''/'')
                 else ''''),
       names = filter (\<lambda>x. x \<noteq> [] \<and> x \<noteq> ''.'') (split CHR ''/'' s) \<rparr>"

definition parent :: "pure_path \<Rightarrow> pure_path" where
  "parent p = (if names p = [] then p else p\<lparr>names := butlast (names p)\<rparr>)"

definition joinpath :: "pure_path \<Rightarrow> string \<Rightarrow> pure_path" where
  \<comment> \<open>\<open>p / s\<close>: an absolute \<open>s\<close> replaces \<open>p\<close>\<close>
  "joinpath p s =
     (let q = Path s in if anchor q \<noteq> [] then q else p\<lparr>names := names p @ names q\<rparr>)"

definition path_str :: "pure_path \<Rightarrow> string" where
  \<comment> \<open>\<open>str(p)\<close>\<close>
  "path_str p =
     (if anchor p = [] \<and> names p = [] then ''.'' else anchor p @ join ''/'' (names p))"

definition is_relative_to :: "pure_path \<Rightarrow> pure_path \<Rightarrow> bool" where
  \<comment> \<open>\<open>p.relative_to(q)\<close> returns; otherwise it raises \<open>ValueError\<close>\<close>
  "is_relative_to p q = (anchor p = anchor q \<and> prefix (names q) (names p))"

definition suffix_of :: "pure_path \<Rightarrow> string" where
  \<comment> \<open>\<open>p.suffix\<close>: from the last dot of the final name, when that dot is neither its
      first nor its last character\<close>
  "suffix_of p =
     (if names p = [] then []
      else let name = last (names p);
               ext = rev (takeWhile (\<lambda>c. c \<noteq> CHR ''.'') (rev name))
           in if CHR ''.'' \<in> set name \<and> ext \<noteq> [] \<and> Suc (length ext) < length name
              then CHR ''.'' # ext else [])"

section \<open>The program\<close>

definition CODE_EXTENSIONS :: "string set" where
  "CODE_EXTENSIONS = {''.ts'', ''.tsx'', ''.js'', ''.jsx'', ''.py'', ''.go'', ''.rs'', ''.java''}"

definition SECONDS_PER_DAY :: int where
  "SECONDS_PER_DAY = 86400"

record StalenessResult =
  stale :: bool
  doc_time :: "int option"
  newest_code_time :: "int option"
  newest_code_file :: "string option"
  days_behind :: int
  hours_behind :: int
  deps_source :: string
  deps_count :: int
  error :: "string option"
  reason :: "string option"

definition StalenessResult_init :: "bool \<Rightarrow> StalenessResult" where
  \<comment> \<open>the constructor with every keyword argument at its default\<close>
  "StalenessResult_init s =
     \<lparr> stale = s, doc_time = None, newest_code_time = None, newest_code_file = None,
       days_behind = 0, hours_behind = 0, deps_source = ''none'', deps_count = 0,
       error = None, reason = None \<rparr>"

definition run_git :: "env \<Rightarrow> string list \<Rightarrow> string \<Rightarrow> string \<times> string option" where
  "run_git env args cwd =
     (case subprocess_run env (''git'' # args) cwd of
        Inr result \<Rightarrow>
          if returncode result \<noteq> 0 then
            (let stderr' = strip (stderr result) in
             if contains (lower stderr') ''not a git repository'' then
               ([], Some ''Not a git repository'')
             else if stderr' \<noteq> [] then ([], Some (''Git error: '' @ stderr'))
             else ([], Some (''Git command failed with code '' @ str_of_int (returncode result))))
          else (strip (stdout result), None)
      | Inl (FileNotFoundError e) \<Rightarrow> ([], Some ''Git is not installed or not in PATH'')
      | Inl (PermissionError e) \<Rightarrow> ([], Some (''Permission denied running git: '' @ e))
      | Inl (OSError e) \<Rightarrow> ([], Some (''OS error running git: '' @ e)))"

definition get_last_commit_time :: "env \<Rightarrow> string \<Rightarrow> int option \<times> string option" where
  "get_last_commit_time env file_path =
     (case run_git env [''log'', ''-1'', ''--format=%ct'', ''--'', file_path] ''.'' of
        (output, err) \<Rightarrow>
          if truthy err then (None, err)
          else if output = [] then (None, None)
          else if isdigit output then (Some (int_of_str output), None)
          else (None, Some (''Invalid git timestamp: '' @ output)))"

definition read_failure :: "string \<Rightarrow> read_error \<Rightarrow> string" where
  \<comment> \<open>the four \<open>except\<close> clauses that both parsers share\<close>
  "read_failure file_path e =
     (case e of
        ReadOS (FileNotFoundError _) \<Rightarrow> ''File not found: '' @ file_path
      | ReadOS (PermissionError _) \<Rightarrow> ''Permission denied reading: '' @ file_path
      | UnicodeDecodeError \<Rightarrow> ''File is not valid UTF-8: '' @ file_path
      | ReadOS (OSError m) \<Rightarrow> ''Error reading file: '' @ m)"

fun add_inline :: "string list \<Rightarrow> string list \<Rightarrow> string list" where
  \<comment> \<open>the loop over the inline references: \<open>if file_ref not in deps: deps.append(file_ref)\<close>\<close>
  "add_inline deps [] = deps"
| "add_inline deps (file_ref # rest) =
     add_inline (if file_ref \<notin> set deps then deps @ [file_ref] else deps) rest"

definition parse_depends_from_md :: "env \<Rightarrow> string \<Rightarrow> string list \<times> string option" where
  "parse_depends_from_md env file_path =
     (case read_text env file_path of
        Inl e \<Rightarrow> ([], Some (read_failure file_path e))
      | Inr content \<Rightarrow>
          (let deps = (case re_depends_section env content of
                         None \<Rightarrow> []
                       | Some section \<Rightarrow> re_bullets env section)
           in (add_inline deps (re_inline env content), None)))"

definition parse_depends_from_code :: "env \<Rightarrow> string \<Rightarrow> string list \<times> string option" where
  "parse_depends_from_code env file_path =
     (case read_text env file_path of
        Inl e \<Rightarrow> ([], Some (read_failure file_path e))
      | Inr content \<Rightarrow>
          (case re_at_depends env content of
             None \<Rightarrow> ([], None)
           | Some deps_str \<Rightarrow>
               (filter (\<lambda>dep. dep \<noteq> []) (map strip (split CHR '','' deps_str)), None)))"

definition resolve_path :: "env \<Rightarrow> string \<Rightarrow> string \<Rightarrow> pure_path \<Rightarrow> string option \<times> string option" where
  "resolve_path env base_path relative_path project_root =
     (if length relative_path > 200 then (None, Some ''Path too long (>200 chars)'')
      else if CHR 0x0A \<in> set relative_path then (None, Some ''Path contains newline'')
      else if \<not> startswith relative_path ''./'' \<and> \<not> startswith relative_path ''../'' \<and>
              CHR ''/'' \<in> set relative_path then
        (None, Some (''Use ./ prefix for paths with directories: '' @ relative_path))
      else
        (let base_dir = parent (Path base_path) in
         case fs_resolve env (joinpath base_dir relative_path) of
           Inl e \<Rightarrow> (None, Some (''Error resolving path: '' @ e))
         | Inr resolved \<Rightarrow>
             if \<not> is_relative_to resolved project_root then
               (None, Some (''Path escapes project directory: '' @ relative_path))
             else
               (case fs_exists env resolved of
                  Inl e \<Rightarrow> (None, Some (''Error resolving path: '' @ e))
                | Inr True \<Rightarrow> (Some (path_str resolved), None)
                | Inr False \<Rightarrow>
                    if startswith relative_path ''./'' then
                      (case fs_resolve env (joinpath base_dir (drop 2 relative_path)) of
                         Inl e \<Rightarrow> (None, Some (''Error resolving path: '' @ e))
                       | Inr resolved2 \<Rightarrow>
                           if \<not> is_relative_to resolved2 project_root then
                             (None, Some (''Path escapes project directory: '' @ relative_path))
                           else
                             (case fs_exists env resolved2 of
                                Inl e \<Rightarrow> (None, Some (''Error resolving path: '' @ e))
                              | Inr True \<Rightarrow> (Some (path_str resolved2), None)
                              | Inr False \<Rightarrow> (None, None)))
                    else (None, None))))"

fun code_files :: "env \<Rightarrow> pure_path \<Rightarrow> string list \<Rightarrow> os_error + string list" where
  \<comment> \<open>the list comprehension over \<open>path.iterdir()\<close>; an exception of \<open>is_file\<close> ends it\<close>
  "code_files env path [] = Inr []"
| "code_files env path (n # ns) =
     (let f = path\<lparr>names := names path @ [n]\<rparr> in
      case fs_is_file env f of
        Inl e \<Rightarrow> Inl e
      | Inr is_file \<Rightarrow>
          (case code_files env path ns of
             Inl e \<Rightarrow> Inl e
           | Inr files \<Rightarrow>
               Inr (if is_file \<and> suffix_of f \<in> CODE_EXTENSIONS then path_str f # files
                    else files)))"

definition dir_failure :: "string \<Rightarrow> os_error \<Rightarrow> string" where
  \<comment> \<open>the two \<open>except\<close> clauses of \<open>get_code_files_in_dir\<close>\<close>
  "dir_failure dir_path e =
     (case e of
        PermissionError _ \<Rightarrow> ''Permission denied reading directory: '' @ dir_path
      | FileNotFoundError m \<Rightarrow> ''Error reading directory: '' @ m
      | OSError m \<Rightarrow> ''Error reading directory: '' @ m)"

definition get_code_files_in_dir :: "env \<Rightarrow> string \<Rightarrow> string list \<times> string option" where
  "get_code_files_in_dir env dir_path =
     (let path = Path dir_path in
      case fs_is_dir env path of
        Inl e \<Rightarrow> ([], Some (dir_failure dir_path e))
      | Inr False \<Rightarrow> ([], None)
      | Inr True \<Rightarrow>
          (case fs_listdir env path of
             Inl e \<Rightarrow> ([], Some (dir_failure dir_path e))
           | Inr ns \<Rightarrow>
               (case code_files env path ns of
                  Inl e \<Rightarrow> ([], Some (dir_failure dir_path e))
                | Inr files \<Rightarrow> (files, None))))"

fun resolve_deps :: "env \<Rightarrow> string \<Rightarrow> string list \<Rightarrow> pure_path \<Rightarrow> string list" where
  \<comment> \<open>the loop that fills \<open>resolved_deps\<close>: \<open>if resolved: resolved_deps.append(resolved)\<close>,
      where \<open>None\<close> and the empty string are false\<close>
  "resolve_deps env doc_path [] project_root = []"
| "resolve_deps env doc_path (dep # deps) project_root =
     (case resolve_path env doc_path dep project_root of
        (None, skip_reason) \<Rightarrow> resolve_deps env doc_path deps project_root
      | (Some resolved, skip_reason) \<Rightarrow>
          if resolved \<noteq> [] then resolved # resolve_deps env doc_path deps project_root
          else resolve_deps env doc_path deps project_root)"

fun newest_loop ::
  "env \<Rightarrow> string list \<Rightarrow> int \<times> string option \<times> (string \<times> int) list \<Rightarrow>
   int \<times> string option \<times> (string \<times> int) list" where
  \<comment> \<open>the loop over \<open>resolved_deps\<close>; the state is
      \<open>(newest_time, newest_file, checked_deps)\<close>. The error that
      \<open>get_last_commit_time\<close> returns is bound to \<open>_\<close> and never read;
      \<open>if dep_time:\<close> is false for \<open>None\<close> and for \<open>0\<close>.\<close>
  "newest_loop env [] st = st"
| "newest_loop env (dep_path # rest) (newest_time, newest_file, checked_deps) =
     (case get_last_commit_time env dep_path of
        (None, _) \<Rightarrow> newest_loop env rest (newest_time, newest_file, checked_deps)
      | (Some dep_time, _) \<Rightarrow>
          if dep_time \<noteq> 0 then
            (let checked_deps' = checked_deps @ [(dep_path, dep_time)] in
             if dep_time > newest_time then
               newest_loop env rest (dep_time, Some dep_path, checked_deps')
             else newest_loop env rest (newest_time, newest_file, checked_deps'))
          else newest_loop env rest (newest_time, newest_file, checked_deps))"

definition compare_deps :: "env \<Rightarrow> int \<Rightarrow> string \<Rightarrow> string list \<Rightarrow> StalenessResult" where
  \<comment> \<open>\<open>check_staleness\<close> from \<open>if not resolved_deps:\<close> (the second one) to its end: the
      document's timestamp, \<open>deps_source\<close> and \<open>resolved_deps\<close> are final there\<close>
  "compare_deps env dt source resolved_deps =
     (if resolved_deps = [] then
        (StalenessResult_init False)
          \<lparr>doc_time := Some dt, deps_source := source,
           reason := Some ''No dependencies found''\<rparr>
      else
        (case newest_loop env resolved_deps (0, None, []) of
           (newest_time, newest_file, checked_deps) \<Rightarrow>
             if newest_time = 0 then
               (StalenessResult_init False)
                 \<lparr>doc_time := Some dt, deps_source := source,
                  deps_count := int (length resolved_deps),
                  reason := Some ''Dependencies not tracked by git''\<rparr>
             else
               (let is_stale = (newest_time > dt);
                    time_diff = (if is_stale then newest_time - dt else 0);
                    days = time_diff div SECONDS_PER_DAY;
                    hours = (time_diff mod SECONDS_PER_DAY) div 3600
                in (StalenessResult_init is_stale)
                     \<lparr>doc_time := Some dt, newest_code_time := Some newest_time,
                      newest_code_file := newest_file, days_behind := days,
                      hours_behind := hours, deps_source := source,
                      deps_count := int (length checked_deps)\<rparr>)))"

definition check_staleness_run :: "env \<Rightarrow> string \<Rightarrow> pure_path \<Rightarrow> string list \<times> StalenessResult" where
  \<comment> \<open>\<open>check_staleness\<close> together with the directories it handed to
      \<open>get_code_files_in_dir\<close>, in the order of the calls\<close>
  "check_staleness_run env doc_path project_root =
     (case get_last_commit_time env doc_path of
        (doc_time_opt, git_error) \<Rightarrow>
     if truthy git_error then ([], (StalenessResult_init False)\<lparr>error := git_error\<rparr>)
     else
       (case doc_time_opt of
          None \<Rightarrow> ([], (StalenessResult_init False)\<lparr>error := Some ''Doc not tracked by git''\<rparr>)
        | Some dt \<Rightarrow>
       (case (if endswith doc_path ''.md'' then parse_depends_from_md env doc_path
              else parse_depends_from_code env doc_path) of
          (deps, parse_error) \<Rightarrow>
        if truthy parse_error then
          ([], (StalenessResult_init False)
                 \<lparr>doc_time := Some dt, error := parse_error, deps_source := ''none''\<rparr>)
        else
          (let resolved_deps = resolve_deps env doc_path deps project_root;
               source = (if resolved_deps \<noteq> [] then ''explicit'' else ''directory'')
           in
           if resolved_deps = [] then
             (let dir_path = path_str (parent (Path doc_path)) in
              case get_code_files_in_dir env dir_path of
                (files, dir_error) \<Rightarrow>
                  if truthy dir_error then
                    ([dir_path], (StalenessResult_init False)
                       \<lparr>doc_time := Some dt, deps_source := ''directory'', error := dir_error\<rparr>)
                  else ([dir_path], compare_deps env dt source files))
           else ([], compare_deps env dt source resolved_deps)))))"

definition check_staleness :: "env \<Rightarrow> string \<Rightarrow> pure_path \<Rightarrow> StalenessResult" where
  "check_staleness env doc_path project_root = snd (check_staleness_run env doc_path project_root)"

definition dir_scans :: "env \<Rightarrow> string \<Rightarrow> pure_path \<Rightarrow> string list" where
  \<comment> \<open>the calls of \<open>get_code_files_in_dir\<close> that one evaluation makes\<close>
  "dir_scans env doc_path project_root = fst (check_staleness_run env doc_path project_root)"

section \<open>Notions the properties are stated with\<close>

definition extract_deps :: "env \<Rightarrow> string \<Rightarrow> string list \<times> string option" where
  \<comment> \<open>the extractor that \<open>check_staleness\<close> picks for a document\<close>
  "extract_deps env doc_path =
     (if endswith doc_path ''.md'' then parse_depends_from_md env doc_path
      else parse_depends_from_code env doc_path)"

definition resolves :: "env \<Rightarrow> string \<Rightarrow> pure_path \<Rightarrow> string \<Rightarrow> bool" where
  \<comment> \<open>a declared dependency resolves: \<open>resolve_path\<close> answers with a path\<close>
  "resolves env doc_path project_root dep = truthy (fst (resolve_path env doc_path dep project_root))"

definition dependency_set :: "env \<Rightarrow> string \<Rightarrow> pure_path \<Rightarrow> string list" where
  \<comment> \<open>the dependencies of a document: the declared ones that resolve or, when there
      are none, the code files beside it; nothing when the extraction fails\<close>
  "dependency_set env doc_path project_root =
     (case extract_deps env doc_path of
        (deps, parse_error) \<Rightarrow>
          if truthy parse_error then []
          else (let declared = resolve_deps env doc_path deps project_root in
                if declared \<noteq> [] then declared
                else fst (get_code_files_in_dir env (path_str (parent (Path doc_path))))))"

definition known_times :: "env \<Rightarrow> string list \<Rightarrow> int list" where
  \<comment> \<open>the last-commit timestamps of those dependencies that have one\<close>
  "known_times env deps = List.map_filter (\<lambda>p. fst (get_last_commit_time env p)) deps"

definition checked :: "env \<Rightarrow> string list \<Rightarrow> string list" where
  \<comment> \<open>the dependencies that the timestamp pass keeps: a timestamp other than \<open>0\<close>\<close>
  "checked env deps =
     filter (\<lambda>p. fst (get_last_commit_time env p) \<notin> {None, Some 0}) deps"

section \<open>A concrete world\<close>

text \<open>
  A file system without symbolic links, where \<open>resolve\<close> is lexical: a relative path
  is taken from the working directory and \<open>..\<close> drops the name before it.
\<close>

fun collapse :: "string list \<Rightarrow> string list \<Rightarrow> string list" where
  "collapse acc [] = rev acc"
| "collapse acc (n # ns) =
     (if n = ''..'' then collapse (tl acc) ns else collapse (n # acc) ns)"

definition lexical_resolve :: "string list \<Rightarrow> pure_path \<Rightarrow> pure_path" where
  "lexical_resolve cwd p =
     (if anchor p = [] then \<lparr> anchor = ''/'', names = collapse [] (cwd @ names p) \<rparr>
      else \<lparr> anchor = anchor p, names = collapse [] (names p) \<rparr>)"

definition untracked :: completed_process where
  \<comment> \<open>what \<open>git log\<close> gives for a file it has no commit for: success and no output\<close>
  "untracked = \<lparr> returncode = 0, stdout = [], stderr = [] \<rparr>"

definition committed :: "string \<Rightarrow> completed_process" where
  "committed ts = \<lparr> returncode = 0, stdout = ts @ [CHR 0x0A], stderr = [] \<rparr>"

definition git_fails :: "string \<Rightarrow> completed_process" where
  "git_fails msg = \<lparr> returncode = 128, stdout = [], stderr = msg @ [CHR 0x0A] \<rparr>"

definition world ::
  "(string \<times> completed_process) list \<Rightarrow> string list \<Rightarrow> string list \<Rightarrow> string list \<Rightarrow> env" where
  \<comment> \<open>the project \<open>/proj\<close>: the answers of \<open>git log\<close> by file, the references that a
      document declares, the files that exist, and the entries of the document's
      directory\<close>
  "world history declared files entries =
     \<lparr> subprocess_run = (\<lambda>argv cwd.
         Inr (case map_of history (last argv) of None \<Rightarrow> untracked | Some r \<Rightarrow> r)),
       read_text = (\<lambda>p. Inr []),
       re_depends_section = (\<lambda>content. None),
       re_bullets = (\<lambda>section. []),
       re_inline = (\<lambda>content. declared),
       re_at_depends = (\<lambda>content. None),
       fs_resolve = (\<lambda>p. Inr (lexical_resolve [''proj''] p)),
       fs_exists = (\<lambda>p. Inr (path_str p \<in> set files)),
       fs_is_dir = (\<lambda>p. Inr True),
       fs_listdir = (\<lambda>p. Inr entries),
       fs_is_file = (\<lambda>p. Inr True) \<rparr>"

definition guide :: string where
  "guide = ''/proj/docs/guide.md''"

definition proj :: pure_path where
  "proj = Path ''/proj''"

definition lib :: string where
  "lib = ''/proj/docs/lib.ts''"

definition stale_world :: env where
  \<comment> \<open>the guide was committed at 1000; of its two references one exists, committed
      at 91000\<close>
  "stale_world = world [(guide, committed ''1000''), (lib, committed ''91000'')]
     [''./lib.ts'', ''./gone.ts''] [lib] []"

definition untracked_doc_world :: env where
  \<comment> \<open>the guide has no commit\<close>
  "untracked_doc_world = world [(lib, committed ''91000'')] [''./lib.ts''] [lib] []"

definition failing_dep_world :: env where
  \<comment> \<open>\<open>git log\<close> fails for the one dependency\<close>
  "failing_dep_world = world [(guide, committed ''1000''), (lib, git_fails ''fatal: bad object'')]
     [''./lib.ts''] [lib] []"

definition untracked_dep_world :: env where
  \<comment> \<open>the one dependency has no commit\<close>
  "untracked_dep_world = world [(guide, committed ''1000'')] [''./lib.ts''] [lib] []"

definition epoch_world :: env where
  \<comment> \<open>no reference declared; of the code files beside the guide one was committed at
      the epoch and one has no commit\<close>
  "epoch_world = world [(guide, committed ''1000''), (''/proj/docs/a.py'', committed ''0'')]
     [] [] [''a.py'', ''b.rs'', ''notes.txt'']"

definition empty_world :: env where
  \<comment> \<open>no reference declared and no file beside the guide\<close>
  "empty_world = world [(guide, committed ''1000'')] [] [] []"

definition passwd_world :: env where
  \<comment> \<open>\<open>/etc/passwd\<close> exists, outside the project\<close>
  "passwd_world = world [] [] [''/etc/passwd''] []"

definition late_world :: env where
  \<comment> \<open>the guide was committed at 1000, its one dependency at 1000000\<close>
  "late_world = world [(guide, committed ''1000''), (lib, committed ''1000000'')]
     [''./lib.ts''] [lib] []"

definition gone_world :: env where
  \<comment> \<open>the one reference that the guide declares does not exist; a code file lies
      beside the guide\<close>
  "gone_world = world [(guide, committed ''1000'')] [''./gone.ts''] [] [''a.py'']"

definition no_access :: "pure_path \<Rightarrow> os_error + 'a" where
  \<comment> \<open>a directory call that raises \<open>PermissionError\<close>\<close>
  "no_access p = Inl (PermissionError ''Permission denied'')"

definition passes_syntax :: "string \<Rightarrow> bool" where
  \<comment> \<open>none of the three rejection rules at the head of \<open>resolve_path\<close> applies\<close>
  "passes_syntax relative_path =
     (length relative_path \<le> 200 \<and> CHR 0x0A \<notin> set relative_path \<and>
      (startswith relative_path ''./'' \<or> startswith relative_path ''../'' \<or>
       CHR ''/'' \<notin> set relative_path))"

definition etc_passwd :: pure_path where
  "etc_passwd = \<lparr> anchor = ''/'', names = [''etc'', ''passwd''] \<rparr>"

section \<open>Facts about the program\<close>

subsection \<open>Timestamps\<close>

lemma int_of_str_nonneg_aux:
  "list_all isdigit_char s \<Longrightarrow> 0 \<le> a \<Longrightarrow>
   0 \<le> foldl (\<lambda>a c. 10 * a + (int (of_char c) - 48)) a s"
proof (induction s arbitrary: a)
  case Nil
  then show ?case by simp
next
  case (Cons c s)
  from Cons.prems have "48 \<le> (of_char c :: nat)" by (simp add: isdigit_char_def Let_def)
  then have "0 \<le> 10 * a + (int (of_char c) - 48)" using Cons.prems(2) by simp
  with Cons show ?case by simp
qed

lemma int_of_str_nonneg: "isdigit s \<Longrightarrow> 0 \<le> int_of_str s"
  unfolding isdigit_def int_of_str_def by (simp add: int_of_str_nonneg_aux)

lemma glct_cases:
  "get_last_commit_time env p = (t, e) \<Longrightarrow>
   (t = None \<and> truthy e) \<or> (t = None \<and> e = None) \<or> (\<exists>n. t = Some n \<and> 0 \<le> n \<and> e = None)"
  unfolding get_last_commit_time_def
  by (auto simp: truthy_def int_of_str_nonneg split: prod.splits if_splits)

lemma glct_Some:
  assumes "fst (get_last_commit_time env p) = Some n"
  shows "0 \<le> n" and "snd (get_last_commit_time env p) = None"
  using glct_cases[OF surjective_pairing, of env p] assms by auto

lemma glct_truthy:
  assumes "truthy (snd (get_last_commit_time env p))"
  shows "fst (get_last_commit_time env p) = None"
  using glct_cases[OF surjective_pairing, of env p] assms by (auto simp: truthy_def)

lemma glct_None:
  assumes "fst (get_last_commit_time env p) = None" "\<not> truthy (snd (get_last_commit_time env p))"
  shows "snd (get_last_commit_time env p) = None"
  using glct_cases[OF surjective_pairing, of env p] assms by auto

subsection \<open>The timestamp pass\<close>

lemma known_times_Nil: "known_times env [] = []"
  by (simp add: known_times_def)

lemma known_times_Cons:
  "known_times env (p # rs) =
     (case fst (get_last_commit_time env p) of None \<Rightarrow> known_times env rs
      | Some t \<Rightarrow> t # known_times env rs)"
  by (simp add: known_times_def split: option.splits)

lemma known_times_nonneg: "t \<in> set (known_times env rs) \<Longrightarrow> 0 \<le> t"
  by (induction rs) (auto simp: known_times_Nil known_times_Cons glct_Some(1) split: option.splits)

lemma checked_Nil: "checked env [] = []"
  by (simp add: checked_def)

lemma checked_Cons:
  "checked env (p # rs) =
     (case fst (get_last_commit_time env p) of None \<Rightarrow> checked env rs
      | Some t \<Rightarrow> if t \<noteq> 0 then p # checked env rs else checked env rs)"
  by (simp add: checked_def split: option.splits)

lemma newest_loop_step:
  "newest_loop env (p # rest) (nt, nf, cd) =
     (case fst (get_last_commit_time env p) of
        None \<Rightarrow> newest_loop env rest (nt, nf, cd)
      | Some t \<Rightarrow>
          if t \<noteq> 0 then
            (if t > nt then newest_loop env rest (t, Some p, cd @ [(p, t)])
             else newest_loop env rest (nt, nf, cd @ [(p, t)]))
          else newest_loop env rest (nt, nf, cd))"
  by (simp add: Let_def split: prod.splits option.splits)

lemma newest_loop_time:
  "0 \<le> nt \<Longrightarrow> fst (newest_loop env rs (nt, nf, cd)) = fold max (known_times env rs) nt"
proof (induction rs arbitrary: nt nf cd)
  case Nil
  then show ?case by (simp add: known_times_Nil)
next
  case (Cons p rs)
  show ?case
  proof (cases "fst (get_last_commit_time env p)")
    case None
    then show ?thesis using Cons by (simp add: newest_loop_step known_times_Cons del: newest_loop.simps)
  next
    case (Some t)
    then have "0 \<le> t" by (rule glct_Some(1))
    then show ?thesis using Some Cons.prems Cons.IH[of nt nf] Cons.IH[of t]
      by (simp add: newest_loop_step known_times_Cons max_def del: newest_loop.simps)
  qed
qed

lemma fold_max_nonneg:
  "ts \<noteq> [] \<Longrightarrow> \<forall>t\<in>set ts. (0::int) \<le> t \<Longrightarrow> fold max ts 0 = Max (set ts)"
proof -
  assume ne: "ts \<noteq> []" and nn: "\<forall>t\<in>set ts. (0::int) \<le> t"
  have "fold max ts 0 = Max (set (0 # ts))" by (rule Max.set_eq_fold[symmetric])
  also have "\<dots> = max 0 (Max (set ts))" using ne by simp
  also have "\<dots> = Max (set ts)"
  proof -
    obtain t where "t \<in> set ts" using ne by (cases ts) auto
    then have "0 \<le> t" "t \<le> Max (set ts)" using nn by auto
    then show ?thesis by simp
  qed
  finally show ?thesis .
qed

lemma newest_loop_checked:
  "length (snd (snd (newest_loop env rs (nt, nf, cd)))) = length cd + length (checked env rs)"
proof (induction rs arbitrary: nt nf cd)
  case Nil
  then show ?case by (simp add: checked_Nil)
next
  case (Cons p rs)
  show ?case
    by (cases "fst (get_last_commit_time env p)")
       (simp_all add: newest_loop_step checked_Cons Cons.IH del: newest_loop.simps)
qed

lemma newest_loop_zero:
  "0 \<le> nt \<Longrightarrow> (fst (newest_loop env rs (nt, nf, cd)) = 0) = (nt = 0 \<and> checked env rs = [])"
proof (induction rs arbitrary: nt nf cd)
  case Nil
  then show ?case by (simp add: checked_Nil)
next
  case (Cons p rs)
  show ?case
  proof (cases "fst (get_last_commit_time env p)")
    case None
    then show ?thesis using Cons by (simp add: newest_loop_step checked_Cons del: newest_loop.simps)
  next
    case (Some t)
    then have "0 \<le> t" by (rule glct_Some(1))
    then show ?thesis using Some Cons.prems Cons.IH[of nt nf] Cons.IH[of t]
      by (auto simp add: newest_loop_step checked_Cons simp del: newest_loop.simps)
  qed
qed

lemma newest_loop_skip:
  "fst (get_last_commit_time env p) \<in> {None, Some 0} \<Longrightarrow>
   newest_loop env (p # rest) st = newest_loop env rest st"
  by (cases st) (auto simp add: newest_loop_step simp del: newest_loop.simps)

subsection \<open>The evaluation, case by case\<close>

lemma extract_unfold:
  "(if endswith doc ''.md'' then parse_depends_from_md env doc
    else parse_depends_from_code env doc) = extract_deps env doc"
  by (simp add: extract_deps_def)

lemma extract_error_no_deps:
  "snd (extract_deps env doc) \<noteq> None \<Longrightarrow> fst (extract_deps env doc) = []"
  by (auto simp: extract_deps_def parse_depends_from_md_def parse_depends_from_code_def Let_def
      split: sum.splits option.splits if_splits)

lemma gcf_error_no_files:
  "snd (get_code_files_in_dir env d) \<noteq> None \<Longrightarrow> fst (get_code_files_in_dir env d) = []"
  by (auto simp: get_code_files_in_dir_def Let_def split: sum.splits bool.splits)

lemma resolve_deps_empty_iff:
  "(resolve_deps env doc deps root = []) = (\<forall>d\<in>set deps. \<not> resolves env doc root d)"
  by (induction deps) (auto simp: resolves_def truthy_def split: prod.splits option.splits)

lemma run_unfold:
  "check_staleness_run env doc root =
     (if truthy (snd (get_last_commit_time env doc)) then
        ([], (StalenessResult_init False)\<lparr>error := snd (get_last_commit_time env doc)\<rparr>)
      else case fst (get_last_commit_time env doc) of
        None \<Rightarrow> ([], (StalenessResult_init False)\<lparr>error := Some ''Doc not tracked by git''\<rparr>)
      | Some dt \<Rightarrow>
          if truthy (snd (extract_deps env doc)) then
            ([], (StalenessResult_init False)
                   \<lparr>doc_time := Some dt, error := snd (extract_deps env doc),
                    deps_source := ''none''\<rparr>)
          else if resolve_deps env doc (fst (extract_deps env doc)) root = [] then
            (if truthy (snd (get_code_files_in_dir env (path_str (parent (Path doc))))) then
               ([path_str (parent (Path doc))], (StalenessResult_init False)
                  \<lparr>doc_time := Some dt, deps_source := ''directory'',
                   error := snd (get_code_files_in_dir env (path_str (parent (Path doc))))\<rparr>)
             else ([path_str (parent (Path doc))],
                   compare_deps env dt ''directory''
                     (fst (get_code_files_in_dir env (path_str (parent (Path doc)))))))
          else ([], compare_deps env dt ''explicit''
                      (resolve_deps env doc (fst (extract_deps env doc)) root)))"
  unfolding check_staleness_run_def extract_unfold Let_def
  by (simp split: prod.splits option.splits)

lemma dependency_set_unfold:
  "dependency_set env doc root =
     (if truthy (snd (extract_deps env doc)) then []
      else if resolve_deps env doc (fst (extract_deps env doc)) root \<noteq> [] then
        resolve_deps env doc (fst (extract_deps env doc)) root
      else fst (get_code_files_in_dir env (path_str (parent (Path doc)))))"
  by (simp add: dependency_set_def Let_def split: prod.splits)

lemma truthy_not_None: "truthy e \<Longrightarrow> e \<noteq> None"
  by (cases e) (auto simp: truthy_def)

lemma run_pass:
  assumes "fst (get_last_commit_time env doc) = Some dt"
    and "dependency_set env doc root \<noteq> []"
  shows "check_staleness env doc root =
           compare_deps env dt
             (if resolve_deps env doc (fst (extract_deps env doc)) root \<noteq> [] then ''explicit''
              else ''directory'')
             (dependency_set env doc root)"
proof -
  have g: "\<not> truthy (snd (get_last_commit_time env doc))"
    using assms(1) glct_Some(2)[OF assms(1)] by (simp add: truthy_def)
  have p: "\<not> truthy (snd (extract_deps env doc))"
    using assms(2) by (auto simp: dependency_set_unfold)
  show ?thesis
  proof (cases "resolve_deps env doc (fst (extract_deps env doc)) root = []")
    case True
    then have "fst (get_code_files_in_dir env (path_str (parent (Path doc)))) \<noteq> []"
      using assms(2) p by (simp add: dependency_set_unfold)
    then have "\<not> truthy (snd (get_code_files_in_dir env (path_str (parent (Path doc)))))"
      using gcf_error_no_files truthy_not_None by blast
    then show ?thesis using True g p assms(1)
      by (simp add: check_staleness_def run_unfold dependency_set_unfold)
  next
    case False
    then show ?thesis using g p assms(1)
      by (simp add: check_staleness_def run_unfold dependency_set_unfold)
  qed
qed

lemma compare_deps_unfold:
  "rs \<noteq> [] \<Longrightarrow>
   compare_deps env dt s rs =
     (if checked env rs = [] then
        (StalenessResult_init False)
          \<lparr>doc_time := Some dt, deps_source := s, deps_count := int (length rs),
           reason := Some ''Dependencies not tracked by git''\<rparr>
      else
        (StalenessResult_init (fst (newest_loop env rs (0, None, [])) > dt))
          \<lparr>doc_time := Some dt,
           newest_code_time := Some (fst (newest_loop env rs (0, None, []))),
           newest_code_file := fst (snd (newest_loop env rs (0, None, []))),
           days_behind := (if fst (newest_loop env rs (0, None, [])) > dt
                           then fst (newest_loop env rs (0, None, [])) - dt else 0) div 86400,
           hours_behind := ((if fst (newest_loop env rs (0, None, [])) > dt
                           then fst (newest_loop env rs (0, None, [])) - dt else 0) mod 86400) div 3600,
           deps_source := s,
           deps_count := int (length (checked env rs))\<rparr>)"
proof -
  assume ne: "rs \<noteq> []"
  obtain nt nf cd where L: "newest_loop env rs (0, None, []) = (nt, nf, cd)"
    by (cases "newest_loop env rs (0, None, [])") auto
  have z: "(nt = 0) = (checked env rs = [])"
    using newest_loop_zero[of 0 env rs None "[]"] L by simp
  have c: "length cd = length (checked env rs)"
    using newest_loop_checked[of env rs 0 None "[]"] L by simp
  show ?thesis using ne z c
    by (simp add: compare_deps_def L Let_def SECONDS_PER_DAY_def)
qed

lemma compare_deps_fields:
  "error (compare_deps env dt s rs) = None \<and>
   doc_time (compare_deps env dt s rs) = Some dt \<and>
   deps_source (compare_deps env dt s rs) = s \<and>
   (stale (compare_deps env dt s rs) \<longrightarrow>
      (\<exists>n. newest_code_time (compare_deps env dt s rs) = Some n \<and> dt < n \<and>
           days_behind (compare_deps env dt s rs) = (n - dt) div 86400 \<and>
           hours_behind (compare_deps env dt s rs) = ((n - dt) mod 86400) div 3600)) \<and>
   (\<not> stale (compare_deps env dt s rs) \<longrightarrow>
      days_behind (compare_deps env dt s rs) = 0 \<and> hours_behind (compare_deps env dt s rs) = 0)"
proof (cases "rs = []")
  case True
  then show ?thesis by (simp add: compare_deps_def StalenessResult_init_def)
next
  case False
  then show ?thesis by (simp add: compare_deps_unfold StalenessResult_init_def)
qed

lemma result_forms:
  "(\<exists>e. check_staleness env doc root = (StalenessResult_init False)\<lparr>error := e\<rparr>) \<or>
   (\<exists>dt e s. check_staleness env doc root =
       (StalenessResult_init False)\<lparr>doc_time := Some dt, error := e, deps_source := s\<rparr>) \<or>
   (\<exists>dt s rs. check_staleness env doc root = compare_deps env dt s rs)"
proof (cases "truthy (snd (get_last_commit_time env doc))")
  case True
  then have "check_staleness env doc root =
      (StalenessResult_init False)\<lparr>error := snd (get_last_commit_time env doc)\<rparr>"
    by (simp add: check_staleness_def run_unfold)
  then show ?thesis by blast
next
  case g: False
  show ?thesis
  proof (cases "fst (get_last_commit_time env doc)")
    case None
    then have "check_staleness env doc root =
        (StalenessResult_init False)\<lparr>error := Some ''Doc not tracked by git''\<rparr>"
      using g by (simp add: check_staleness_def run_unfold)
    then show ?thesis by blast
  next
    case (Some dt)
    show ?thesis
    proof (cases "truthy (snd (extract_deps env doc))")
      case True
      then have "check_staleness env doc root =
        (StalenessResult_init False)\<lparr>doc_time := Some dt, error := snd (extract_deps env doc),
           deps_source := ''none''\<rparr>"
        using g Some by (simp add: check_staleness_def run_unfold)
      then show ?thesis by blast
    next
      case p: False
      show ?thesis
      proof (cases "resolve_deps env doc (fst (extract_deps env doc)) root = []")
        case False
        then have "check_staleness env doc root = compare_deps env dt ''explicit''
                     (resolve_deps env doc (fst (extract_deps env doc)) root)"
          using g Some p by (simp add: check_staleness_def run_unfold)
        then show ?thesis by blast
      next
        case True
        show ?thesis
        proof (cases "truthy (snd (get_code_files_in_dir env (path_str (parent (Path doc)))))")
          case d: True
          have "check_staleness env doc root =
            (StalenessResult_init False)\<lparr>doc_time := Some dt,
               error := snd (get_code_files_in_dir env (path_str (parent (Path doc)))),
               deps_source := ''directory''\<rparr>"
            using g Some p True d by (simp add: check_staleness_def run_unfold StalenessResult_init_def)
          then show ?thesis by blast
        next
          case d: False
          have "check_staleness env doc root = compare_deps env dt ''directory''
                  (fst (get_code_files_in_dir env (path_str (parent (Path doc)))))"
            using g Some p True d by (simp add: check_staleness_def run_unfold)
          then show ?thesis by blast
        qed
      qed
    qed
  qed
qed

lemma resolve_deps_nonempty_iff:
  "(resolve_deps env doc deps root \<noteq> []) = (\<exists>d\<in>set deps. resolves env doc root d)"
  by (simp add: resolve_deps_empty_iff)

lemma truthy_extract_no_deps:
  "truthy (snd (extract_deps env doc)) \<Longrightarrow> fst (extract_deps env doc) = []"
  using extract_error_no_deps truthy_not_None by blast

lemma checked_length_known:
  "0 \<notin> set (known_times env rs) \<Longrightarrow> length (checked env rs) = length (known_times env rs)"
  by (induction rs) (auto simp: checked_Nil checked_Cons known_times_Nil known_times_Cons split: option.splits)

lemma checked_empty_iff:
  "(checked env rs = []) = (\<forall>p\<in>set rs. fst (get_last_commit_time env p) \<in> {None, Some 0})"
  by (auto simp: checked_def filter_empty_conv)

subsection \<open>Path resolution\<close>

lemma resolve_path_outside_absent:
  assumes "fs_resolve env (joinpath (parent (Path base)) rel) = Inr p"
    and "\<not> is_relative_to p root"
  shows "fst (resolve_path env base rel root) = None"
  using assms by (simp add: resolve_path_def Let_def)

lemma resolve_path_outside_reason:
  assumes "passes_syntax rel"
    and "fs_resolve env (joinpath (parent (Path base)) rel) = Inr p"
    and "\<not> is_relative_to p root"
  shows "resolve_path (env\<lparr>fs_exists := ex\<rparr>) base rel root =
           (None, Some (''Path escapes project directory: '' @ rel))"
  using assms by (auto simp add: resolve_path_def passes_syntax_def Let_def)

lemma resolve_path_retry_outside:
  assumes "passes_syntax rel"
    and "startswith rel ''./''"
    and "fs_resolve env (joinpath (parent (Path base)) rel) = Inr p"
    and "is_relative_to p root"
    and "fs_exists env p = Inr False"
    and "fs_resolve env (joinpath (parent (Path base)) (drop 2 rel)) = Inr q"
    and "\<not> is_relative_to q root"
  shows "resolve_path (env\<lparr>fs_exists := (fs_exists env)(q := e)\<rparr>) base rel root =
           (None, Some (''Path escapes project directory: '' @ rel))"
proof -
  have "q \<noteq> p" using assms(4,7) by auto
  then show ?thesis using assms
    by (auto simp add: resolve_path_def passes_syntax_def Let_def)
qed

subsection \<open>Stale results\<close>

lemma checked_known_times: "checked env rs \<noteq> [] \<Longrightarrow> known_times env rs \<noteq> []"
  by (induction rs) (auto simp: checked_Nil checked_Cons known_times_Cons split: option.splits if_splits)

lemma no_deps_not_stale:
  assumes "dependency_set env doc root = []"
  shows "\<not> stale (check_staleness env doc root)"
proof (cases "fst (get_last_commit_time env doc)")
  case None
  then show ?thesis
    by (simp add: check_staleness_def run_unfold StalenessResult_init_def)
next
  case (Some dt)
  have g: "\<not> truthy (snd (get_last_commit_time env doc))"
    using glct_Some(2)[OF Some] by (simp add: truthy_def)
  show ?thesis
  proof (cases "truthy (snd (extract_deps env doc))")
    case True
    then show ?thesis using Some g
      by (simp add: check_staleness_def run_unfold StalenessResult_init_def)
  next
    case p: False
    then have r: "resolve_deps env doc (fst (extract_deps env doc)) root = []"
      and f: "fst (get_code_files_in_dir env (path_str (parent (Path doc)))) = []"
      using assms by (auto simp: dependency_set_unfold split: if_splits)
    show ?thesis using Some g p r f
      by (simp add: check_staleness_def run_unfold compare_deps_def StalenessResult_init_def)
  qed
qed

lemma stale_reaches_pass:
  assumes "stale (check_staleness env doc root)"
  shows "\<exists>td. fst (get_last_commit_time env doc) = Some td \<and>
           checked env (dependency_set env doc root) \<noteq> []"
proof -
  have ne: "dependency_set env doc root \<noteq> []" using assms no_deps_not_stale by blast
  have "fst (get_last_commit_time env doc) \<noteq> None"
  proof
    assume "fst (get_last_commit_time env doc) = None"
    then have "\<not> stale (check_staleness env doc root)"
      by (simp add: check_staleness_def run_unfold StalenessResult_init_def)
    then show False using assms by simp
  qed
  then obtain td where td: "fst (get_last_commit_time env doc) = Some td" by auto
  have "checked env (dependency_set env doc root) \<noteq> []"
  proof
    assume "checked env (dependency_set env doc root) = []"
    then have "\<not> stale (check_staleness env doc root)"
      by (simp add: run_pass[OF td ne] compare_deps_unfold[OF ne] StalenessResult_init_def)
    then show False using assms by simp
  qed
  then show ?thesis using td by blast
qed

lemma newest_is_Max:
  assumes "known_times env rs \<noteq> []"
  shows "fst (newest_loop env rs (0, None, [])) = Max (set (known_times env rs))"
proof -
  have nn: "\<forall>t\<in>set (known_times env rs). 0 \<le> t" by (simp add: known_times_nonneg)
  show ?thesis
    using newest_loop_time[of 0 env rs None "[]"] fold_max_nonneg[OF assms nn] by simp
qed

subsection \<open>What does not read the directory\<close>

lemma glct_dir_indep:
  "get_last_commit_time (env\<lparr>fs_is_dir := a, fs_listdir := b, fs_is_file := c\<rparr>) p =
   get_last_commit_time env p"
  by (simp add: get_last_commit_time_def run_git_def)

lemma extract_dir_indep:
  "extract_deps (env\<lparr>fs_is_dir := a, fs_listdir := b, fs_is_file := c\<rparr>) doc = extract_deps env doc"
  by (simp add: extract_deps_def parse_depends_from_md_def parse_depends_from_code_def Let_def
      split: sum.splits option.splits)

lemma resolve_path_dir_indep:
  "resolve_path (env\<lparr>fs_is_dir := a, fs_listdir := b, fs_is_file := c\<rparr>) doc d root =
   resolve_path env doc d root"
  by (simp add: resolve_path_def Let_def cong: sum.case_cong bool.case_cong if_cong)

lemma resolve_deps_dir_indep:
  "resolve_deps (env\<lparr>fs_is_dir := a, fs_listdir := b, fs_is_file := c\<rparr>) doc deps root =
   resolve_deps env doc deps root"
  by (induction deps) (simp_all add: resolve_path_dir_indep split: prod.splits option.splits)

lemma newest_loop_dir_indep:
  "newest_loop (env\<lparr>fs_is_dir := a, fs_listdir := b, fs_is_file := c\<rparr>) rs st =
   newest_loop env rs st"
proof (induction rs arbitrary: st)
  case Nil
  then show ?case by simp
next
  case (Cons p rs)
  obtain nt nf cd where st: "st = (nt, nf, cd)" by (cases st) auto
  show ?case unfolding st
    by (simp add: newest_loop_step glct_dir_indep Cons.IH del: newest_loop.simps
        split: option.splits)
qed

lemma compare_deps_dir_indep:
  "compare_deps (env\<lparr>fs_is_dir := a, fs_listdir := b, fs_is_file := c\<rparr>) dt s rs =
   compare_deps env dt s rs"
  by (simp add: compare_deps_def newest_loop_dir_indep cong: if_cong)

lemma explicit_result_dir_indep:
  assumes "resolve_deps env doc (fst (extract_deps env doc)) root \<noteq> []"
  shows "check_staleness (env\<lparr>fs_is_dir := a, fs_listdir := b, fs_is_file := c\<rparr>) doc root =
         check_staleness env doc root"
  using assms
  by (simp add: check_staleness_def run_unfold glct_dir_indep extract_dir_indep
      resolve_deps_dir_indep compare_deps_dir_indep split: option.splits)

section \<open>The properties\<close>

text \<open>
  C1. For a document that has a timestamp of its own and a dependency set (the
  declared dependencies that resolve, or the code files beside it) in which at least
  one dependency has a known last-commit timestamp, the verdict is stale exactly when
  the greatest known dependency timestamp is strictly later than the document's.
\<close>

theorem stale_iff_newest_dependency_later:
  assumes "fst (get_last_commit_time env doc) = Some td"
    and "known_times env (dependency_set env doc root) \<noteq> []"
  shows "stale (check_staleness env doc root) =
           (td < Max (set (known_times env (dependency_set env doc root))))"
proof -
  let ?S = "dependency_set env doc root"
  have ne: "?S \<noteq> []" using assms(2) by (auto simp: known_times_Nil)
  have td: "0 \<le> td" using assms(1) by (rule glct_Some(1))
  have nn: "\<forall>t\<in>set (known_times env ?S). 0 \<le> t" by (simp add: known_times_nonneg)
  have newest: "fst (newest_loop env ?S (0, None, [])) = Max (set (known_times env ?S))"
    using newest_loop_time[of 0 env ?S None "[]"] fold_max_nonneg[OF assms(2) nn] by simp
  show ?thesis
  proof (cases "checked env ?S = []")
    case True
    then have "fst (newest_loop env ?S (0, None, [])) = 0"
      using newest_loop_zero[of 0 env ?S None "[]"] by simp
    then show ?thesis using True td newest
      by (simp add: run_pass[OF assms(1) ne] compare_deps_unfold[OF ne] StalenessResult_init_def)
  next
    case False
    then show ?thesis using newest
      by (simp add: run_pass[OF assms(1) ne] compare_deps_unfold[OF ne] StalenessResult_init_def)
  qed
qed

theorem stale_iff_newest_dependency_later_witness:
  "fst (get_last_commit_time stale_world guide) = Some 1000 \<and>
   known_times stale_world (dependency_set stale_world guide proj) = [91000] \<and>
   stale (check_staleness stale_world guide proj) =
     (1000 < Max (set (known_times stale_world (dependency_set stale_world guide proj)))) \<and>
   stale (check_staleness stale_world guide proj)"
proof -
  have h1: "fst (get_last_commit_time stale_world guide) = Some 1000" by code_simp
  have h2: "known_times stale_world (dependency_set stale_world guide proj) = [91000]"
    by code_simp
  have h3: "known_times stale_world (dependency_set stale_world guide proj) \<noteq> []"
    by (simp add: h2)
  have h4: "stale (check_staleness stale_world guide proj)" by code_simp
  show ?thesis
    using stale_iff_newest_dependency_later[OF h1 h3] h1 h2 h4 by simp
qed

text \<open>
  C2, as the program has it. A document that git has no commit for (the query
  succeeds and prints nothing) gets a result that is not stale and whose \<open>error\<close>
  field is set to \<open>Doc not tracked by git\<close>; no \<open>reason\<close> is given and no other
  field is filled in.
\<close>

theorem untracked_document_reports_error:
  assumes "get_last_commit_time env doc = (None, None)"
  shows "check_staleness env doc root =
           (StalenessResult_init False)\<lparr>error := Some ''Doc not tracked by git''\<rparr>"
  using assms by (simp add: check_staleness_def run_unfold truthy_def)

theorem untracked_document_reports_error_witness:
  "get_last_commit_time untracked_doc_world guide = (None, None) \<and>
   check_staleness untracked_doc_world guide proj =
     (StalenessResult_init False)\<lparr>error := Some ''Doc not tracked by git''\<rparr>"
proof -
  have h: "get_last_commit_time untracked_doc_world guide = (None, None)" by code_simp
  show ?thesis using untracked_document_reports_error[OF h] h by simp
qed

text \<open>
  C2 as stated asks for an unset \<open>error\<close> and a \<open>reason\<close>; the untracked guide gets
  the opposite.
\<close>

theorem untracked_document_counterexample:
  "get_last_commit_time untracked_doc_world guide = (None, None) \<and>
   error (check_staleness untracked_doc_world guide proj) = Some ''Doc not tracked by git'' \<and>
   reason (check_staleness untracked_doc_world guide proj) = None \<and>
   \<not> (error (check_staleness untracked_doc_world guide proj) = None \<and>
      reason (check_staleness untracked_doc_world guide proj) \<noteq> None)"
  by code_simp

text \<open>
  C3, as the program has it. In the timestamp pass a dependency without a timestamp
  is left out and the pass goes on, whether its query reported nothing at all or
  reported an error: the error is discarded. Once the pass is reached (the document
  has a timestamp and the dependency set is not empty) the result carries no error.
\<close>

theorem dependency_query_error_is_dropped:
  "(get_last_commit_time env p = (None, None) \<longrightarrow>
      newest_loop env (p # rest) st = newest_loop env rest st) \<and>
   (truthy (snd (get_last_commit_time env p)) \<longrightarrow>
      newest_loop env (p # rest) st = newest_loop env rest st) \<and>
   (fst (get_last_commit_time env doc) \<noteq> None \<and> dependency_set env doc root \<noteq> [] \<longrightarrow>
      error (check_staleness env doc root) = None)"
proof (intro conjI impI)
  assume "get_last_commit_time env p = (None, None)"
  then show "newest_loop env (p # rest) st = newest_loop env rest st"
    by (simp add: newest_loop_skip)
next
  assume "truthy (snd (get_last_commit_time env p))"
  then have "fst (get_last_commit_time env p) = None" by (rule glct_truthy)
  then show "newest_loop env (p # rest) st = newest_loop env rest st"
    by (simp add: newest_loop_skip)
next
  assume a: "fst (get_last_commit_time env doc) \<noteq> None \<and> dependency_set env doc root \<noteq> []"
  then obtain dt where dt: "fst (get_last_commit_time env doc) = Some dt" by auto
  from a have ne: "dependency_set env doc root \<noteq> []" by simp
  show "error (check_staleness env doc root) = None"
    by (simp add: run_pass[OF dt ne] compare_deps_unfold[OF ne] StalenessResult_init_def)
qed

theorem dependency_query_error_is_dropped_witness:
  "get_last_commit_time untracked_dep_world lib = (None, None) \<and>
   newest_loop untracked_dep_world [lib] (0, None, []) = (0, None, []) \<and>
   truthy (snd (get_last_commit_time failing_dep_world lib)) \<and>
   newest_loop failing_dep_world [lib] (0, None, []) = (0, None, []) \<and>
   fst (get_last_commit_time failing_dep_world guide) \<noteq> None \<and>
   dependency_set failing_dep_world guide proj \<noteq> [] \<and>
   error (check_staleness failing_dep_world guide proj) = None"
proof -
  have h1: "get_last_commit_time untracked_dep_world lib = (None, None)" by code_simp
  have h2: "truthy (snd (get_last_commit_time failing_dep_world lib))" by code_simp
  have h3: "fst (get_last_commit_time failing_dep_world guide) \<noteq> None" by code_simp
  have h4: "dependency_set failing_dep_world guide proj \<noteq> []" by code_simp
  show ?thesis
    using dependency_query_error_is_dropped[of untracked_dep_world lib "[]" "(0, None, [])" guide proj]
      dependency_query_error_is_dropped[of failing_dep_world lib "[]" "(0, None, [])" guide proj]
      h1 h2 h3 h4
    by simp
qed

text \<open>
  C3 as stated has a query error of a dependency end the evaluation with that error;
  where \<open>git log\<close> fails for the one dependency the result has no error.
\<close>

theorem dependency_query_error_counterexample:
  "get_last_commit_time failing_dep_world lib = (None, Some ''Git error: fatal: bad object'') \<and>
   dependency_set failing_dep_world guide proj = [lib] \<and>
   error (check_staleness failing_dep_world guide proj) = None \<and>
   reason (check_staleness failing_dep_world guide proj) = Some ''Dependencies not tracked by git''"
  by code_simp

text \<open>
  C4, as the program has it. A reference whose resolution lies outside the project
  root resolves to nothing. When none of the three rules checked first rejects the
  reference, the skip reason is the containment violation, whatever \<open>exists\<close> would
  answer; and the same holds when the first resolution lies inside the root and does
  not exist and the retry without the leading \<open>./\<close> lies outside, whatever \<open>exists\<close>
  would answer for the retried path.
\<close>

theorem outside_root_is_rejected:
  "(fs_resolve env (joinpath (parent (Path base)) rel) = Inr p \<and> \<not> is_relative_to p root \<longrightarrow>
      fst (resolve_path env base rel root) = None) \<and>
   (passes_syntax rel \<and>
    fs_resolve env (joinpath (parent (Path base)) rel) = Inr p \<and> \<not> is_relative_to p root \<longrightarrow>
      resolve_path (env\<lparr>fs_exists := ex\<rparr>) base rel root =
        (None, Some (''Path escapes project directory: '' @ rel))) \<and>
   (passes_syntax rel \<and> startswith rel ''./'' \<and>
    fs_resolve env (joinpath (parent (Path base)) rel) = Inr p' \<and> is_relative_to p' root \<and>
    fs_exists env p' = Inr False \<and>
    fs_resolve env (joinpath (parent (Path base)) (drop 2 rel)) = Inr q \<and>
    \<not> is_relative_to q root \<longrightarrow>
      resolve_path (env\<lparr>fs_exists := (fs_exists env)(q := e)\<rparr>) base rel root =
        (None, Some (''Path escapes project directory: '' @ rel)))"
  using resolve_path_outside_absent resolve_path_outside_reason resolve_path_retry_outside
  by blast

theorem outside_root_is_rejected_witness:
  "passes_syntax ''../../etc/passwd'' \<and>
   fs_resolve passwd_world (joinpath (parent (Path guide)) ''../../etc/passwd'') = Inr etc_passwd \<and>
   \<not> is_relative_to etc_passwd proj \<and>
   fs_exists passwd_world etc_passwd = Inr True \<and>
   resolve_path passwd_world guide ''../../etc/passwd'' proj =
     (None, Some ''Path escapes project directory: ../../etc/passwd'') \<and>
   passes_syntax ''.//etc/passwd'' \<and> startswith ''.//etc/passwd'' ''./'' \<and>
   is_relative_to \<lparr> anchor = ''/'', names = [''proj'', ''docs'', ''etc'', ''passwd''] \<rparr> proj \<and>
   resolve_path passwd_world guide ''.//etc/passwd'' proj =
     (None, Some ''Path escapes project directory: .//etc/passwd'')"
proof -
  let ?inside = "\<lparr> anchor = ''/'', names = [''proj'', ''docs'', ''etc'', ''passwd''] \<rparr>"
  have s1: "passes_syntax ''../../etc/passwd''" by code_simp
  have r1: "fs_resolve passwd_world (joinpath (parent (Path guide)) ''../../etc/passwd'') = Inr etc_passwd"
    by code_simp
  have o: "\<not> is_relative_to etc_passwd proj" by code_simp
  have x: "fs_exists passwd_world etc_passwd = Inr True" by code_simp
  have s2: "passes_syntax ''.//etc/passwd''" "startswith ''.//etc/passwd'' ''./''" by code_simp+
  have r2: "fs_resolve passwd_world (joinpath (parent (Path guide)) ''.//etc/passwd'') = Inr ?inside"
    by code_simp
  have i: "is_relative_to ?inside proj" by code_simp
  have n: "fs_exists passwd_world ?inside = Inr False" by code_simp
  have r3: "fs_resolve passwd_world (joinpath (parent (Path guide)) (drop 2 ''.//etc/passwd'')) = Inr etc_passwd"
    by code_simp
  have same1: "passwd_world\<lparr>fs_exists := fs_exists passwd_world\<rparr> = passwd_world" by simp
  have same2: "passwd_world\<lparr>fs_exists := (fs_exists passwd_world)(etc_passwd := Inr True)\<rparr> = passwd_world"
    using x by (simp add: fun_upd_idem)
  show ?thesis
    using outside_root_is_rejected[of passwd_world guide "''../../etc/passwd''" etc_passwd proj
        "fs_exists passwd_world" ?inside etc_passwd "Inr True"]
      outside_root_is_rejected[of passwd_world guide "''.//etc/passwd''" etc_passwd proj
        "fs_exists passwd_world" ?inside etc_passwd "Inr True"]
      s1 r1 o x s2 r2 i n r3
    unfolding same1 same2 by simp
qed

text \<open>
  C4 as stated gives the containment reason to every reference that resolves
  outside the root; a reference with a directory part and no \<open>./\<close> or \<open>../\<close> prefix is
  rejected by the rule before, with that rule's reason.
\<close>

theorem outside_root_reason_counterexample:
  "fs_resolve passwd_world (joinpath (parent (Path guide)) ''x/../../../etc/passwd'') = Inr etc_passwd \<and>
   \<not> is_relative_to etc_passwd proj \<and>
   resolve_path passwd_world guide ''x/../../../etc/passwd'' proj =
     (None, Some ''Use ./ prefix for paths with directories: x/../../../etc/passwd'')"
  by code_simp

text \<open>
  C5. When the verdict is stale, the document has a timestamp, the newest dependency
  timestamp is the greatest known timestamp of the dependency set, and with their
  difference as the time delta \<open>days_behind\<close> is the delta divided by 86400 and
  \<open>hours_behind\<close> is the remainder divided by 3600 (floor divisions); a delta of 90000
  seconds gives one day and one hour. When the verdict is not stale both are zero.
\<close>

theorem days_and_hours_behind:
  "(stale (check_staleness env doc root) \<longrightarrow>
      (\<exists>td. fst (get_last_commit_time env doc) = Some td \<and>
            known_times env (dependency_set env doc root) \<noteq> [] \<and>
            td < Max (set (known_times env (dependency_set env doc root))) \<and>
            doc_time (check_staleness env doc root) = Some td \<and>
            newest_code_time (check_staleness env doc root) =
              Some (Max (set (known_times env (dependency_set env doc root)))) \<and>
            days_behind (check_staleness env doc root) =
              (Max (set (known_times env (dependency_set env doc root))) - td) div 86400 \<and>
            hours_behind (check_staleness env doc root) =
              ((Max (set (known_times env (dependency_set env doc root))) - td) mod 86400) div 3600 \<and>
            (Max (set (known_times env (dependency_set env doc root))) - td = 90000 \<longrightarrow>
               days_behind (check_staleness env doc root) = 1 \<and>
               hours_behind (check_staleness env doc root) = 1))) \<and>
   (\<not> stale (check_staleness env doc root) \<longrightarrow>
      days_behind (check_staleness env doc root) = 0 \<and>
      hours_behind (check_staleness env doc root) = 0)"
proof (intro conjI impI)
  let ?S = "dependency_set env doc root"
  assume st: "stale (check_staleness env doc root)"
  then obtain td where td: "fst (get_last_commit_time env doc) = Some td"
    and c: "checked env ?S \<noteq> []"
    using stale_reaches_pass by blast
  have ne: "?S \<noteq> []" using c by (auto simp: checked_Nil)
  have k: "known_times env ?S \<noteq> []" using c by (rule checked_known_times)
  have m: "fst (newest_loop env ?S (0, None, [])) = Max (set (known_times env ?S))"
    using k by (rule newest_is_Max)
  have r: "check_staleness env doc root =
      compare_deps env td
        (if resolve_deps env doc (fst (extract_deps env doc)) root \<noteq> [] then ''explicit''
         else ''directory'') ?S"
    by (rule run_pass[OF td ne])
  have lt: "td < Max (set (known_times env ?S))"
    using st c m unfolding r by (simp add: compare_deps_unfold[OF ne] StalenessResult_init_def)
  show "\<exists>td. fst (get_last_commit_time env doc) = Some td \<and>
            known_times env ?S \<noteq> [] \<and>
            td < Max (set (known_times env ?S)) \<and>
            doc_time (check_staleness env doc root) = Some td \<and>
            newest_code_time (check_staleness env doc root) = Some (Max (set (known_times env ?S))) \<and>
            days_behind (check_staleness env doc root) =
              (Max (set (known_times env ?S)) - td) div 86400 \<and>
            hours_behind (check_staleness env doc root) =
              ((Max (set (known_times env ?S)) - td) mod 86400) div 3600 \<and>
            (Max (set (known_times env ?S)) - td = 90000 \<longrightarrow>
               days_behind (check_staleness env doc root) = 1 \<and>
               hours_behind (check_staleness env doc root) = 1)"
  proof (intro exI[of _ td] conjI impI)
    show "fst (get_last_commit_time env doc) = Some td" by (rule td)
    show "known_times env ?S \<noteq> []" by (rule k)
    show "td < Max (set (known_times env ?S))" by (rule lt)
    show "doc_time (check_staleness env doc root) = Some td"
      unfolding r by (simp add: compare_deps_fields)
    show "newest_code_time (check_staleness env doc root) = Some (Max (set (known_times env ?S)))"
      using c m unfolding r by (simp add: compare_deps_unfold[OF ne] StalenessResult_init_def)
    show d: "days_behind (check_staleness env doc root) =
              (Max (set (known_times env ?S)) - td) div 86400"
      using c m lt unfolding r by (simp add: compare_deps_unfold[OF ne] StalenessResult_init_def)
    show h: "hours_behind (check_staleness env doc root) =
              ((Max (set (known_times env ?S)) - td) mod 86400) div 3600"
      using c m lt unfolding r by (simp add: compare_deps_unfold[OF ne] StalenessResult_init_def)
    assume e: "Max (set (known_times env ?S)) - td = 90000"
    show "days_behind (check_staleness env doc root) = 1" using d e by simp
    show "hours_behind (check_staleness env doc root) = 1" using h e by simp
  qed
next
  assume n: "\<not> stale (check_staleness env doc root)"
  consider (early) e where "check_staleness env doc root = (StalenessResult_init False)\<lparr>error := e\<rparr>"
    | (error) dt e s where "check_staleness env doc root =
        (StalenessResult_init False)\<lparr>doc_time := Some dt, error := e, deps_source := s\<rparr>"
    | (compared) dt s rs where "check_staleness env doc root = compare_deps env dt s rs"
    using result_forms[of env doc root] by blast
  then have "days_behind (check_staleness env doc root) = 0 \<and>
      hours_behind (check_staleness env doc root) = 0"
  proof cases
    case early
    then show ?thesis by (simp add: StalenessResult_init_def)
  next
    case error
    then show ?thesis by (simp add: StalenessResult_init_def)
  next
    case compared
    show ?thesis using n unfolding compared using compare_deps_fields[of env dt s rs] by auto
  qed
  then show "days_behind (check_staleness env doc root) = 0"
    and "hours_behind (check_staleness env doc root) = 0" by simp_all
qed

theorem days_and_hours_behind_witness:
  "stale (check_staleness stale_world guide proj) \<and>
   fst (get_last_commit_time stale_world guide) = Some 1000 \<and>
   known_times stale_world (dependency_set stale_world guide proj) = [91000] \<and>
   days_behind (check_staleness stale_world guide proj) = 1 \<and>
   hours_behind (check_staleness stale_world guide proj) = 1 \<and>
   stale (check_staleness late_world guide proj) \<and>
   fst (get_last_commit_time late_world guide) = Some 1000 \<and>
   known_times late_world (dependency_set late_world guide proj) = [1000000] \<and>
   days_behind (check_staleness late_world guide proj) = 11 \<and>
   hours_behind (check_staleness late_world guide proj) = 13 \<and>
   \<not> stale (check_staleness empty_world guide proj) \<and>
   days_behind (check_staleness empty_world guide proj) = 0 \<and>
   hours_behind (check_staleness empty_world guide proj) = 0"
proof -
  have a: "stale (check_staleness stale_world guide proj)"
    "fst (get_last_commit_time stale_world guide) = Some 1000"
    "known_times stale_world (dependency_set stale_world guide proj) = [91000]" by code_simp+
  have b: "stale (check_staleness late_world guide proj)"
    "fst (get_last_commit_time late_world guide) = Some 1000"
    "known_times late_world (dependency_set late_world guide proj) = [1000000]" by code_simp+
  have c: "\<not> stale (check_staleness empty_world guide proj)" by code_simp
  show ?thesis
    using days_and_hours_behind[of stale_world guide proj]
      days_and_hours_behind[of late_world guide proj]
      days_and_hours_behind[of empty_world guide proj] a b c
    by auto
qed

text \<open>
  C6, as the program has it. When at least one declared dependency resolves, no
  directory is scanned and the result is the same whatever the directory calls would
  answer, also when other declared dependencies do not resolve; for a document with
  a timestamp of its own the detection source is then \<open>explicit\<close>. A directory is
  scanned only when no declared dependency resolves; for a document with a timestamp
  whose extraction succeeds it is then the document's directory, and the detection
  source is \<open>directory\<close>.
\<close>

theorem explicit_over_fallback:
  "((\<exists>d\<in>set (fst (extract_deps env doc)). resolves env doc root d) \<longrightarrow>
      dir_scans env doc root = [] \<and>
      check_staleness (env\<lparr>fs_is_dir := a, fs_listdir := b, fs_is_file := c\<rparr>) doc root =
        check_staleness env doc root) \<and>
   (fst (get_last_commit_time env doc) \<noteq> None \<and>
    (\<exists>d\<in>set (fst (extract_deps env doc)). resolves env doc root d) \<longrightarrow>
      deps_source (check_staleness env doc root) = ''explicit'') \<and>
   (dir_scans env doc root \<noteq> [] \<longrightarrow>
      (\<forall>d\<in>set (fst (extract_deps env doc)). \<not> resolves env doc root d)) \<and>
   (fst (get_last_commit_time env doc) \<noteq> None \<and> \<not> truthy (snd (extract_deps env doc)) \<and>
    (\<forall>d\<in>set (fst (extract_deps env doc)). \<not> resolves env doc root d) \<longrightarrow>
      dir_scans env doc root = [path_str (parent (Path doc))] \<and>
      deps_source (check_staleness env doc root) = ''directory'')"
proof -
  have scans: "dir_scans env doc root = []"
    if "\<exists>d\<in>set (fst (extract_deps env doc)). resolves env doc root d"
  proof -
    from that have "resolve_deps env doc (fst (extract_deps env doc)) root \<noteq> []"
      by (simp add: resolve_deps_nonempty_iff)
    then show ?thesis
      by (simp add: dir_scans_def run_unfold split: option.splits)
  qed
  have indep: "check_staleness (env\<lparr>fs_is_dir := a, fs_listdir := b, fs_is_file := c\<rparr>) doc root =
        check_staleness env doc root"
    if "\<exists>d\<in>set (fst (extract_deps env doc)). resolves env doc root d"
    using that by (simp add: explicit_result_dir_indep resolve_deps_nonempty_iff)
  have source: "deps_source (check_staleness env doc root) = ''explicit''"
    if t: "fst (get_last_commit_time env doc) \<noteq> None"
      and r: "\<exists>d\<in>set (fst (extract_deps env doc)). resolves env doc root d"
  proof -
    from t obtain dt where dt: "fst (get_last_commit_time env doc) = Some dt" by auto
    have g: "\<not> truthy (snd (get_last_commit_time env doc))"
      using glct_Some(2)[OF dt] by (simp add: truthy_def)
    have p: "\<not> truthy (snd (extract_deps env doc))"
      using r truthy_extract_no_deps[of env doc] by auto
    have n: "resolve_deps env doc (fst (extract_deps env doc)) root \<noteq> []"
      using r by (simp add: resolve_deps_nonempty_iff)
    show ?thesis using dt g p n
      by (simp add: check_staleness_def run_unfold compare_deps_fields)
  qed
  have fallback: "dir_scans env doc root = [path_str (parent (Path doc))] \<and>
      deps_source (check_staleness env doc root) = ''directory''"
    if t: "fst (get_last_commit_time env doc) \<noteq> None"
      and p: "\<not> truthy (snd (extract_deps env doc))"
      and r: "\<forall>d\<in>set (fst (extract_deps env doc)). \<not> resolves env doc root d"
  proof -
    from t obtain dt where dt: "fst (get_last_commit_time env doc) = Some dt" by auto
    have g: "\<not> truthy (snd (get_last_commit_time env doc))"
      using glct_Some(2)[OF dt] by (simp add: truthy_def)
    have n: "resolve_deps env doc (fst (extract_deps env doc)) root = []"
      using r by (simp add: resolve_deps_empty_iff)
    show ?thesis using dt g p n
      by (simp add: dir_scans_def check_staleness_def run_unfold compare_deps_fields
          StalenessResult_init_def)
  qed
  show ?thesis using scans indep source fallback by blast
qed

theorem explicit_over_fallback_witness:
  "fst (extract_deps stale_world guide) = [''./lib.ts'', ''./gone.ts''] \<and>
   resolves stale_world guide proj ''./lib.ts'' \<and>
   \<not> resolves stale_world guide proj ''./gone.ts'' \<and>
   fst (get_last_commit_time stale_world guide) \<noteq> None \<and>
   dir_scans stale_world guide proj = [] \<and>
   check_staleness
     (stale_world\<lparr>fs_is_dir := no_access, fs_listdir := no_access, fs_is_file := no_access\<rparr>)
     guide proj = check_staleness stale_world guide proj \<and>
   deps_source (check_staleness stale_world guide proj) = ''explicit'' \<and>
   fst (extract_deps gone_world guide) = [''./gone.ts''] \<and>
   \<not> truthy (snd (extract_deps gone_world guide)) \<and>
   \<not> resolves gone_world guide proj ''./gone.ts'' \<and>
   fst (get_last_commit_time gone_world guide) \<noteq> None \<and>
   dir_scans gone_world guide proj = [''/proj/docs''] \<and>
   deps_source (check_staleness gone_world guide proj) = ''directory''"
proof -
  have h1: "fst (extract_deps stale_world guide) = [''./lib.ts'', ''./gone.ts'']" by code_simp
  have h2: "resolves stale_world guide proj ''./lib.ts''" by code_simp
  have h3: "\<not> resolves stale_world guide proj ''./gone.ts''" by code_simp
  have h4: "fst (get_last_commit_time stale_world guide) \<noteq> None" by code_simp
  have g1: "fst (extract_deps gone_world guide) = [''./gone.ts'']" by code_simp
  have g2: "\<not> truthy (snd (extract_deps gone_world guide))" by code_simp
  have g3: "\<not> resolves gone_world guide proj ''./gone.ts''" by code_simp
  have g4: "fst (get_last_commit_time gone_world guide) \<noteq> None" by code_simp
  have g5: "path_str (parent (Path guide)) = ''/proj/docs''" by code_simp
  have ex: "\<exists>d\<in>set (fst (extract_deps stale_world guide)). resolves stale_world guide proj d"
    using h1 h2 by simp
  have nx: "\<forall>d\<in>set (fst (extract_deps gone_world guide)). \<not> resolves gone_world guide proj d"
    using g1 g3 by simp
  show ?thesis
    using explicit_over_fallback[of stale_world guide proj no_access no_access no_access]
      explicit_over_fallback[of gone_world guide proj no_access no_access no_access]
      ex nx h1 h2 h3 h4 g1 g2 g3 g4 g5
    by simp
qed

text \<open>
  C6 as stated gives the detection source \<open>explicit\<close> to every document with a
  declared dependency that resolves; the untracked guide declares one, and its result,
  returned before the dependencies are looked at, has the default \<open>none\<close>.
\<close>

theorem explicit_over_fallback_counterexample:
  "fst (extract_deps untracked_doc_world guide) = [''./lib.ts''] \<and>
   resolves untracked_doc_world guide proj ''./lib.ts'' \<and>
   dir_scans untracked_doc_world guide proj = [] \<and>
   deps_source (check_staleness untracked_doc_world guide proj) = ''none'' \<and>
   deps_source (check_staleness untracked_doc_world guide proj) \<noteq> ''explicit''"
  by code_simp

text \<open>
  C7, as the program has it. \<open>deps_count\<close> is the number of dependencies that the
  timestamp pass kept (a timestamp other than 0), except when it kept none: then, in
  the outcome \<open>Dependencies not tracked by git\<close>, it is the number of dependencies
  attempted. It is 0 when the document has no timestamp. The pass keeps as many
  dependencies as have a timestamp when none of the timestamps is 0.
\<close>

theorem deps_count_value:
  "deps_count (check_staleness env doc root) =
     (if fst (get_last_commit_time env doc) = None then 0
      else if checked env (dependency_set env doc root) = []
        then int (length (dependency_set env doc root))
      else int (length (checked env (dependency_set env doc root)))) \<and>
   (0 \<notin> set (known_times env (dependency_set env doc root)) \<longrightarrow>
      length (checked env (dependency_set env doc root)) =
      length (known_times env (dependency_set env doc root)))"
proof -
  let ?count = "deps_count (check_staleness env doc root) =
     (if fst (get_last_commit_time env doc) = None then 0
      else if checked env (dependency_set env doc root) = []
        then int (length (dependency_set env doc root))
      else int (length (checked env (dependency_set env doc root))))"
  have ?count
  proof (cases "fst (get_last_commit_time env doc)")
    case None
    then show ?count
      by (simp add: check_staleness_def run_unfold StalenessResult_init_def)
  next
    case (Some dt)
    have g: "\<not> truthy (snd (get_last_commit_time env doc))"
      using glct_Some(2)[OF Some] by (simp add: truthy_def)
    show ?count
    proof (cases "dependency_set env doc root = []")
      case False
      then show ?count using Some
        by (simp add: run_pass[OF Some False] compare_deps_unfold[OF False] StalenessResult_init_def)
    next
      case True
      have "deps_count (check_staleness env doc root) = 0"
      proof (cases "truthy (snd (extract_deps env doc))")
        case True
        then show ?thesis using Some g
          by (simp add: check_staleness_def run_unfold StalenessResult_init_def)
      next
        case p: False
        then have r: "resolve_deps env doc (fst (extract_deps env doc)) root = []"
          and f: "fst (get_code_files_in_dir env (path_str (parent (Path doc)))) = []"
          using True by (auto simp: dependency_set_unfold split: if_splits)
        show ?thesis using Some g p r f
          by (simp add: check_staleness_def run_unfold compare_deps_def StalenessResult_init_def)
      qed
      then show ?count using True Some by (simp add: checked_Nil)
    qed
  qed
  then show ?thesis
    using checked_length_known[of env "dependency_set env doc root"] by simp
qed

theorem deps_count_value_witness:
  "deps_count (check_staleness untracked_dep_world guide proj) = 1 \<and>
   deps_count (check_staleness stale_world guide proj) = 1 \<and>
   known_times stale_world (dependency_set stale_world guide proj) = [91000] \<and>
   length (checked stale_world (dependency_set stale_world guide proj)) = 1 \<and>
   deps_count (check_staleness epoch_world guide proj) = 2 \<and>
   deps_count (check_staleness untracked_doc_world guide proj) = 0"
proof -
  have a: "fst (get_last_commit_time untracked_dep_world guide) \<noteq> None"
    "checked untracked_dep_world (dependency_set untracked_dep_world guide proj) = []"
    "dependency_set untracked_dep_world guide proj = [lib]" by code_simp+
  have b: "fst (get_last_commit_time stale_world guide) \<noteq> None"
    "checked stale_world (dependency_set stale_world guide proj) = [lib]"
    "known_times stale_world (dependency_set stale_world guide proj) = [91000]" by code_simp+
  have c: "fst (get_last_commit_time epoch_world guide) \<noteq> None"
    "checked epoch_world (dependency_set epoch_world guide proj) = []"
    "dependency_set epoch_world guide proj = [''/proj/docs/a.py'', ''/proj/docs/b.rs'']"
    by code_simp+
  have d: "fst (get_last_commit_time untracked_doc_world guide) = None" by code_simp
  show ?thesis
    using deps_count_value[of untracked_dep_world guide proj]
      deps_count_value[of stale_world guide proj]
      deps_count_value[of epoch_world guide proj]
      deps_count_value[of untracked_doc_world guide proj] a b c d
    by simp
qed

text \<open>
  C7 as stated makes the count 0 in the outcome \<open>Dependencies not tracked by git\<close>;
  with one dependency, which has no commit, the count is 1.
\<close>

theorem deps_count_counterexample:
  "reason (check_staleness untracked_dep_world guide proj) = Some ''Dependencies not tracked by git'' \<and>
   dependency_set untracked_dep_world guide proj = [lib] \<and>
   known_times untracked_dep_world (dependency_set untracked_dep_world guide proj) = [] \<and>
   deps_count (check_staleness untracked_dep_world guide proj) = 1"
  by code_simp

text \<open>
  C8. In every result, a set \<open>error\<close> field excludes the stale verdict, and a stale
  verdict comes with the document's timestamp and a strictly later newest dependency
  timestamp.
\<close>

theorem result_invariants:
  "(error (check_staleness env doc root) \<noteq> None \<longrightarrow> \<not> stale (check_staleness env doc root)) \<and>
   (stale (check_staleness env doc root) \<longrightarrow>
      (\<exists>d n. doc_time (check_staleness env doc root) = Some d \<and>
             newest_code_time (check_staleness env doc root) = Some n \<and> d < n))"
proof -
  consider (early) e where "check_staleness env doc root = (StalenessResult_init False)\<lparr>error := e\<rparr>"
    | (error) dt e s where "check_staleness env doc root =
        (StalenessResult_init False)\<lparr>doc_time := Some dt, error := e, deps_source := s\<rparr>"
    | (compared) dt s rs where "check_staleness env doc root = compare_deps env dt s rs"
    using result_forms[of env doc root] by blast
  then show ?thesis
  proof cases
    case early
    then show ?thesis by (simp add: StalenessResult_init_def)
  next
    case error
    then show ?thesis by (simp add: StalenessResult_init_def)
  next
    case compared
    show ?thesis unfolding compared using compare_deps_fields[of env dt s rs] by auto
  qed
qed

theorem result_invariants_witness:
  "error (check_staleness untracked_doc_world guide proj) \<noteq> None \<and>
   \<not> stale (check_staleness untracked_doc_world guide proj) \<and>
   stale (check_staleness stale_world guide proj) \<and>
   (\<exists>d n. doc_time (check_staleness stale_world guide proj) = Some d \<and>
          newest_code_time (check_staleness stale_world guide proj) = Some n \<and> d < n)"
proof -
  have h1: "error (check_staleness untracked_doc_world guide proj) \<noteq> None" by code_simp
  have h2: "stale (check_staleness stale_world guide proj)" by code_simp
  show ?thesis
    using result_invariants[of untracked_doc_world guide proj]
      result_invariants[of stale_world guide proj] h1 h2
    by blast
qed

text \<open>
  C9. A dependency whose timestamp is 0 leaves the timestamp pass as it was, as an
  untracked one does, and is not kept. When the document has a timestamp and every
  dependency has the timestamp 0 or none, the result is the one that is not stale
  and has the reason \<open>Dependencies not tracked by git\<close>.
\<close>

theorem epoch_timestamp_counts_as_untracked:
  "(fst (get_last_commit_time env p) = Some 0 \<longrightarrow>
      newest_loop env (p # rest) st = newest_loop env rest st \<and> p \<notin> set (checked env deps)) \<and>
   (fst (get_last_commit_time env doc) = Some dt \<and> dependency_set env doc root \<noteq> [] \<and>
    (\<forall>q\<in>set (dependency_set env doc root). fst (get_last_commit_time env q) \<in> {None, Some 0}) \<longrightarrow>
      \<not> stale (check_staleness env doc root) \<and>
      error (check_staleness env doc root) = None \<and>
      reason (check_staleness env doc root) = Some ''Dependencies not tracked by git'' \<and>
      newest_code_time (check_staleness env doc root) = None \<and>
      deps_count (check_staleness env doc root) = int (length (dependency_set env doc root)))"
proof (intro conjI impI)
  assume z: "fst (get_last_commit_time env p) = Some 0"
  then show "newest_loop env (p # rest) st = newest_loop env rest st"
    by (simp add: newest_loop_skip)
  show "p \<notin> set (checked env deps)" using z by (simp add: checked_def)
next
  assume a: "fst (get_last_commit_time env doc) = Some dt \<and> dependency_set env doc root \<noteq> [] \<and>
    (\<forall>q\<in>set (dependency_set env doc root). fst (get_last_commit_time env q) \<in> {None, Some 0})"
  then have dt: "fst (get_last_commit_time env doc) = Some dt"
    and ne: "dependency_set env doc root \<noteq> []"
    and c: "checked env (dependency_set env doc root) = []"
    by (simp_all add: checked_empty_iff)
  have r: "check_staleness env doc root =
      (StalenessResult_init False)
        \<lparr>doc_time := Some dt,
         deps_source := (if resolve_deps env doc (fst (extract_deps env doc)) root \<noteq> []
                         then ''explicit'' else ''directory''),
         deps_count := int (length (dependency_set env doc root)),
         reason := Some ''Dependencies not tracked by git''\<rparr>"
    using c by (simp add: run_pass[OF dt ne] compare_deps_unfold[OF ne])
  show "\<not> stale (check_staleness env doc root)"
    "error (check_staleness env doc root) = None"
    "reason (check_staleness env doc root) = Some ''Dependencies not tracked by git''"
    "newest_code_time (check_staleness env doc root) = None"
    "deps_count (check_staleness env doc root) = int (length (dependency_set env doc root))"
    unfolding r by (simp_all add: StalenessResult_init_def)
qed

theorem epoch_timestamp_counts_as_untracked_witness:
  "fst (get_last_commit_time epoch_world ''/proj/docs/a.py'') = Some 0 \<and>
   fst (get_last_commit_time epoch_world ''/proj/docs/b.rs'') = None \<and>
   newest_loop epoch_world [''/proj/docs/a.py''] (0, None, []) = (0, None, []) \<and>
   fst (get_last_commit_time epoch_world guide) = Some 1000 \<and>
   dependency_set epoch_world guide proj = [''/proj/docs/a.py'', ''/proj/docs/b.rs''] \<and>
   \<not> stale (check_staleness epoch_world guide proj) \<and>
   reason (check_staleness epoch_world guide proj) = Some ''Dependencies not tracked by git'' \<and>
   deps_count (check_staleness epoch_world guide proj) = 2"
proof -
  have h1: "fst (get_last_commit_time epoch_world ''/proj/docs/a.py'') = Some 0" by code_simp
  have h2: "fst (get_last_commit_time epoch_world ''/proj/docs/b.rs'') = None" by code_simp
  have h3: "fst (get_last_commit_time epoch_world guide) = Some 1000" by code_simp
  have h4: "dependency_set epoch_world guide proj = [''/proj/docs/a.py'', ''/proj/docs/b.rs'']"
    by code_simp
  show ?thesis
    using epoch_timestamp_counts_as_untracked[of epoch_world "''/proj/docs/a.py''" "[]"
        "(0, None, [])" "[]" guide 1000 proj] h1 h2 h3 h4
    by simp
qed

text \<open>
  C10, as the program has it. A result with the reason \<open>No dependencies found\<close>
  has the detection source \<open>directory\<close>, and that is the result when no declared
  dependency resolves and the scan finds nothing. The detection source is \<open>none\<close>
  exactly when the document has no timestamp (its query failed or it has no commit)
  or the extraction failed.
\<close>

theorem detection_source_none:
  "(reason (check_staleness env doc root) = Some ''No dependencies found'' \<longrightarrow>
      deps_source (check_staleness env doc root) = ''directory'') \<and>
   (fst (get_last_commit_time env doc) \<noteq> None \<and> \<not> truthy (snd (extract_deps env doc)) \<and>
    (\<forall>d\<in>set (fst (extract_deps env doc)). \<not> resolves env doc root d) \<and>
    get_code_files_in_dir env (path_str (parent (Path doc))) = ([], None) \<longrightarrow>
      reason (check_staleness env doc root) = Some ''No dependencies found'' \<and>
      deps_source (check_staleness env doc root) = ''directory'') \<and>
   ((deps_source (check_staleness env doc root) = ''none'') =
      (fst (get_last_commit_time env doc) = None \<or> truthy (snd (extract_deps env doc))))"
proof (cases "fst (get_last_commit_time env doc)")
  case None
  then show ?thesis
    by (simp add: check_staleness_def run_unfold StalenessResult_init_def)
next
  case (Some dt)
  have g: "\<not> truthy (snd (get_last_commit_time env doc))"
    using glct_Some(2)[OF Some] by (simp add: truthy_def)
  show ?thesis
  proof (cases "truthy (snd (extract_deps env doc))")
    case True
    then show ?thesis using Some g
      by (simp add: check_staleness_def run_unfold StalenessResult_init_def)
  next
    case p: False
    show ?thesis
    proof (cases "resolve_deps env doc (fst (extract_deps env doc)) root = []")
      case False
      then have r: "check_staleness env doc root = compare_deps env dt ''explicit''
          (resolve_deps env doc (fst (extract_deps env doc)) root)"
        using Some g p by (simp add: check_staleness_def run_unfold)
      have n: "\<not> (\<forall>d\<in>set (fst (extract_deps env doc)). \<not> resolves env doc root d)"
        using False by (simp add: resolve_deps_empty_iff)
      show ?thesis unfolding r using Some p n
        by (simp add: compare_deps_unfold[OF False] StalenessResult_init_def)
    next
      case True
      show ?thesis
      proof (cases "truthy (snd (get_code_files_in_dir env (path_str (parent (Path doc)))))")
        case d: True
        then have "get_code_files_in_dir env (path_str (parent (Path doc))) \<noteq> ([], None)"
          by (auto simp: truthy_def)
        then show ?thesis using Some g p True d
          by (simp add: check_staleness_def run_unfold StalenessResult_init_def)
      next
        case d: False
        have r: "check_staleness env doc root = compare_deps env dt ''directory''
                  (fst (get_code_files_in_dir env (path_str (parent (Path doc)))))"
          using g Some p True d by (simp add: check_staleness_def run_unfold)
        show ?thesis
        proof (cases "fst (get_code_files_in_dir env (path_str (parent (Path doc)))) = []")
          case e: True
          show ?thesis unfolding r using Some p e
            by (simp add: compare_deps_def StalenessResult_init_def)
        next
          case e: False
          then have "get_code_files_in_dir env (path_str (parent (Path doc))) \<noteq> ([], None)"
            by auto
          then show ?thesis unfolding r using Some p
            by (simp add: compare_deps_unfold[OF e] StalenessResult_init_def)
        qed
      qed
    qed
  qed
qed

theorem detection_source_none_witness:
  "reason (check_staleness empty_world guide proj) = Some ''No dependencies found'' \<and>
   deps_source (check_staleness empty_world guide proj) = ''directory'' \<and>
   fst (get_last_commit_time empty_world guide) \<noteq> None \<and>
   \<not> truthy (snd (extract_deps empty_world guide)) \<and>
   get_code_files_in_dir empty_world (path_str (parent (Path guide))) = ([], None) \<and>
   fst (get_last_commit_time untracked_doc_world guide) = None \<and>
   deps_source (check_staleness untracked_doc_world guide proj) = ''none''"
proof -
  have h1: "fst (get_last_commit_time empty_world guide) \<noteq> None" by code_simp
  have h2: "\<not> truthy (snd (extract_deps empty_world guide))" by code_simp
  have h3: "fst (extract_deps empty_world guide) = []" by code_simp
  have h4: "get_code_files_in_dir empty_world (path_str (parent (Path guide))) = ([], None)"
    by code_simp
  have h5: "fst (get_last_commit_time untracked_doc_world guide) = None" by code_simp
  show ?thesis
    using detection_source_none[of empty_world guide proj]
      detection_source_none[of untracked_doc_world guide proj] h1 h2 h3 h4 h5
    by simp
qed

text \<open>
  C10 as stated has \<open>none\<close> only after a failed extraction; the untracked guide, whose
  extraction would succeed, has it too.
\<close>

theorem detection_source_none_counterexample:
  "get_last_commit_time untracked_doc_world guide = (None, None) \<and>
   extract_deps untracked_doc_world guide = ([''./lib.ts''], None) \<and>
   deps_source (check_staleness untracked_doc_world guide proj) = ''none''"
  by code_simp

end
